theory Spec2Isabelle
  imports Complex_Main "HOL-Library.Word"
begin

section \<open>The ASTAR blockfile plugin (hyperspy/io_plugins/blockfile.py)\<close>

text \<open>
  A shallow embedding of the blockfile reader and writer. Files are byte lists, NumPy's
  unsigned integers are words of the declared width, a 64-bit float field is the 64 bits
  it occupies in the file, Python's unbounded integers are \<open>nat\<close> and \<open>int\<close>, and every
  exception the code can raise is a value of the type \<open>error\<close>.
\<close>

subsection \<open>Bytes, words and byte order\<close>

type_synonym u8 = "8 word"
type_synonym u16 = "16 word"
type_synonym u32 = "32 word"
type_synonym f8 = "64 word"  \<comment> \<open>the bit pattern of a NumPy \<open>f8\<close> (IEEE 754 binary64)\<close>

datatype endianess = LE | BE  \<comment> \<open>the dtype prefixes \<open><\<close> and \<open>>\<close>\<close>

datatype error =
    NonSquareFrame       \<comment> \<open>ValueError: Blockfiles require signal shape to be square!\<close>
  | FrameCountExceeded   \<comment> \<open>ValueError: Unexpected navigation size.\<close>
  | NegativeDimensions   \<comment> \<open>ValueError of \<open>np.zeros\<close> for a negative length\<close>
  | ZeroDivisionError    \<comment> \<open>\<open>100. / scale\<close> with a zero scale\<close>
  | TypeError            \<comment> \<open>subtracting an offset-aware from an offset-naive datetime\<close>
  | OverflowError        \<comment> \<open>a date outside the years 1 to 9999\<close>
  | MalformedHeader      \<comment> \<open>fewer bytes in the file than one header record\<close>
  | TruncatedFile        \<comment> \<open>ValueError of \<open>np.memmap\<close>: the mapped region ends after the file\<close>
  | ReshapeError         \<comment> \<open>ValueError of \<open>reshape\<close>: the total size changes\<close>

text \<open>The \<open>n\<close> low bytes of a number, least significant first, and the number they spell.\<close>

fun le_bytes :: "nat \<Rightarrow> nat \<Rightarrow> u8 list" where
  "le_bytes 0 v = []"
| "le_bytes (Suc n) v = of_nat (v mod 256) # le_bytes n (v div 256)"

fun le_value :: "u8 list \<Rightarrow> nat" where
  "le_value [] = 0"
| "le_value (b # bs) = unat b + 256 * le_value bs"

definition pack :: "endianess \<Rightarrow> nat \<Rightarrow> nat \<Rightarrow> u8 list" where
  "pack e n v = (case e of LE \<Rightarrow> le_bytes n v | BE \<Rightarrow> rev (le_bytes n v))"

definition unpack :: "endianess \<Rightarrow> u8 list \<Rightarrow> nat" where
  "unpack e bs = (case e of LE \<Rightarrow> le_value bs | BE \<Rightarrow> le_value (rev bs))"

text \<open>
  The byte order of a dtype written without a prefix (\<open>'f8'\<close>) is the machine's; the hosts
  the plugin runs on (x86) are little-endian.
\<close>

definition native :: endianess where
  "native = LE"

subsection \<open>The header record and its dtype\<close>

datatype dtype =
    Bytes nat             \<comment> \<open>\<open>(bytes, n)\<close>\<close>
  | UInt endianess nat    \<comment> \<open>\<open>end + 'u2'\<close>, \<open>end + 'u4'\<close>\<close>
  | Float endianess nat   \<comment> \<open>\<open>end + 'f8'\<close>, and \<open>'f8'\<close> with the native order\<close>

fun itemsize :: "dtype \<Rightarrow> nat" where
  "itemsize (Bytes n) = n"
| "itemsize (UInt e n) = n"
| "itemsize (Float e n) = n"

definition digit :: "nat \<Rightarrow> char" where
  "digit i = char_of (48 + i mod 10)"

definition get_header_dtype_list :: "endianess \<Rightarrow> (string \<times> dtype) list" where
  "get_header_dtype_list end =
     [ (''ID'', Bytes 6),
       (''MAGIC'', UInt end 2),
       (''Data_offset_1'', UInt end 4),
       (''Data_offset_2'', UInt end 4),
       (''UNKNOWN1'', UInt end 4),
       (''DP_SZ'', UInt end 2),
       (''DP_rotation'', UInt end 2),
       (''NX'', UInt end 2),
       (''NY'', UInt end 2),
       (''Scan_rotation'', UInt end 2),
       (''SX'', Float end 8),
       (''SY'', Float end 8),
       (''Beam_energy'', UInt end 4),
       (''SDP'', UInt end 2),
       (''Camera_length'', UInt end 4),
       (''Aquisiton_time'', Float end 8)
     ] @ map (\<lambda>i. (''Centering_N'' @ [digit i], Float native 8)) [0..<8]
       @ map (\<lambda>i. (''Distortion_N'' @ [digit (i div 10), digit i], Float native 8)) [0..<14]"

definition header_size :: "endianess \<Rightarrow> nat" where
  "header_size end = sum_list (map (itemsize \<circ> snd) (get_header_dtype_list end))"

record header =
  ID :: "u8 list"
  MAGIC :: u16
  Data_offset_1 :: u32
  Data_offset_2 :: u32
  UNKNOWN1 :: u32
  DP_SZ :: u16
  DP_rotation :: u16
  NX :: u16
  NY :: u16
  Scan_rotation :: u16
  SX :: f8
  SY :: f8
  Beam_energy :: u32
  SDP :: u16
  Camera_length :: u32
  Aquisiton_time :: f8
  Centering_N :: "f8 list"
  Distortion_N :: "f8 list"

text \<open>
  A header always has eight centering and fourteen distortion values, and its tag is a
  string of at most six bytes that does not end in NUL (NumPy strips trailing NULs when
  it reads a bytes field).
\<close>

definition wf_header :: "header \<Rightarrow> bool" where
  "wf_header h \<longleftrightarrow>
     length (Centering_N h) = 8 \<and> length (Distortion_N h) = 14 \<and>
     length (ID h) \<le> 6 \<and> (ID h = [] \<or> last (ID h) \<noteq> 0)"

text \<open>The value of one field: a byte string, or the unsigned number its bits spell.\<close>

datatype fval = Str "u8 list" | Num nat

fun the_bytes :: "fval \<Rightarrow> u8 list" where
  "the_bytes (Str bs) = bs"
| "the_bytes (Num v) = []"

fun the_num :: "fval \<Rightarrow> nat" where
  "the_num (Num v) = v"
| "the_num (Str bs) = 0"

definition field_values :: "header \<Rightarrow> fval list" where
  "field_values h =
     [ Str (ID h), Num (unat (MAGIC h)), Num (unat (Data_offset_1 h)), Num (unat (Data_offset_2 h)),
       Num (unat (UNKNOWN1 h)), Num (unat (DP_SZ h)), Num (unat (DP_rotation h)), Num (unat (NX h)),
       Num (unat (NY h)), Num (unat (Scan_rotation h)), Num (unat (SX h)), Num (unat (SY h)),
       Num (unat (Beam_energy h)), Num (unat (SDP h)), Num (unat (Camera_length h)),
       Num (unat (Aquisiton_time h)) ]
     @ map (\<lambda>c. Num (unat c)) (Centering_N h) @ map (\<lambda>d. Num (unat d)) (Distortion_N h)"

definition of_fields :: "fval list \<Rightarrow> header" where
  "of_fields vs =
     \<lparr> ID = the_bytes (vs ! 0), MAGIC = of_nat (the_num (vs ! 1)),
       Data_offset_1 = of_nat (the_num (vs ! 2)), Data_offset_2 = of_nat (the_num (vs ! 3)),
       UNKNOWN1 = of_nat (the_num (vs ! 4)), DP_SZ = of_nat (the_num (vs ! 5)),
       DP_rotation = of_nat (the_num (vs ! 6)), NX = of_nat (the_num (vs ! 7)),
       NY = of_nat (the_num (vs ! 8)), Scan_rotation = of_nat (the_num (vs ! 9)),
       SX = of_nat (the_num (vs ! 10)), SY = of_nat (the_num (vs ! 11)),
       Beam_energy = of_nat (the_num (vs ! 12)), SDP = of_nat (the_num (vs ! 13)),
       Camera_length = of_nat (the_num (vs ! 14)), Aquisiton_time = of_nat (the_num (vs ! 15)),
       Centering_N = map (\<lambda>v. of_nat (the_num v)) (take 8 (drop 16 vs)),
       Distortion_N = map (\<lambda>v. of_nat (the_num v)) (take 14 (drop 24 vs)) \<rparr>"

text \<open>Writing and reading one field. A bytes field is NUL-padded on writing, stripped on reading.\<close>

fun rstrip_nul :: "u8 list \<Rightarrow> u8 list" where
  "rstrip_nul [] = []"
| "rstrip_nul (b # bs) = (let r = rstrip_nul bs in if b = 0 \<and> r = [] then [] else b # r)"

fun pack_field :: "dtype \<Rightarrow> fval \<Rightarrow> u8 list" where
  "pack_field (Bytes n) v = take n (the_bytes v @ replicate n 0)"
| "pack_field (UInt e n) v = pack e n (the_num v)"
| "pack_field (Float e n) v = pack e n (the_num v)"

fun unpack_field :: "dtype \<Rightarrow> u8 list \<Rightarrow> fval" where
  "unpack_field (Bytes n) bs = Str (rstrip_nul bs)"
| "unpack_field (UInt e n) bs = Num (unpack e bs)"
| "unpack_field (Float e n) bs = Num (unpack e bs)"

fun pack_fields :: "dtype list \<Rightarrow> fval list \<Rightarrow> u8 list" where
  "pack_fields (d # ds) (v # vs) = pack_field d v @ pack_fields ds vs"
| "pack_fields ds vs = []"

fun unpack_fields :: "dtype list \<Rightarrow> u8 list \<Rightarrow> fval list" where
  "unpack_fields [] bs = []"
| "unpack_fields (d # ds) bs =
     unpack_field d (take (itemsize d) bs) # unpack_fields ds (drop (itemsize d) bs)"

text \<open>
  A structured array of one record: its dtype's byte order and its field values.
  \<open>tofile\<close> is \<open>header.tofile(f)\<close>; \<open>fromfile\<close> is \<open>np.fromfile(f, dtype, count=1)\<close> followed by
  \<open>sarray2dict\<close>, and has no record to return when the file is shorter than one record.
\<close>

type_synonym sarray = "endianess \<times> header"

definition tofile :: "sarray \<Rightarrow> u8 list" where
  "tofile a = pack_fields (map snd (get_header_dtype_list (fst a))) (field_values (snd a))"

text \<open>
  Modelled from the spec: \<open>sarray2dict\<close> of hyperspy.misc.array_tools is not among the
  sources; decoding fails with MalformedHeader when fewer bytes are available than the
  record size, and otherwise yields the field values at their declared places.
\<close>

definition fromfile :: "endianess \<Rightarrow> u8 list \<Rightarrow> error + header" where
  "fromfile end bs =
     (if length bs < header_size end then Inl MalformedHeader
      else Inr (of_fields (unpack_fields (map snd (get_header_dtype_list end)) bs)))"

subsection \<open>Python floats\<close>

text \<open>
  A Python float is an IEEE 754 double; a finite one is taken as the real number it
  stands for. \<open>fl x\<close> is the double nearest to \<open>x\<close>, a tie going to the even significand:
  53 significant bits from \<open>2^-1022\<close> on, multiples of \<open>2^-1074\<close> below it. Every operation
  on floats is the exact operation followed by \<open>fl\<close>; no value of this module comes near
  the overflow threshold. Converting an integer below \<open>2^53\<close> is exact.
\<close>

definition round_even :: "real \<Rightarrow> int" where
  "round_even x =
     (let n = \<lfloor>x\<rfloor>; r = x - real_of_int n
      in if r < 1 / 2 then n else if 1 / 2 < r then n + 1 else if even n then n else n + 1)"

definition fl :: "real \<Rightarrow> real" where
  "fl x =
     (if x = 0 then 0
      else (let e = max \<lfloor>log 2 \<bar>x\<bar>\<rfloor> (- 1022);
                u = 2 powr (real_of_int e - 52)
            in real_of_int (round_even (x / u)) * u))"

text \<open>\<open>int(x)\<close> truncates towards zero.\<close>

definition py_int :: "real \<Rightarrow> int" where
  "py_int x = (if 0 \<le> x then \<lfloor>x\<rfloor> else \<lceil>x\<rceil>)"


subsection \<open>What the plugin takes from its surroundings\<close>

text \<open>
  The clock, the local time zone (its offset from UTC in microseconds at a given UTC
  time), and computations that are left uninterpreted: storing a Python float in an
  \<open>f8\<close> field, \<open>100. / scale\<close> stored in the \<open>u2\<close> field SDP, the virtual bright field pixel
  of one frame (\<open>signal.mean(2j).mean(2j)\<close> cast to \<open>u1\<close>), and the rounding of the left-over
  fraction of a microsecond in \<open>timedelta\<close>, given the whole microseconds it is added to
  (half away from zero in CPython 2, half to even in CPython 3).
\<close>

record env =
  clock :: int
  tzlocal :: "int \<Rightarrow> int"
  float_bits :: "real \<Rightarrow> f8"
  sdp_cast :: "f8 \<Rightarrow> u16"
  vbf_mean :: "u8 list \<Rightarrow> u8"
  round_us :: "int \<Rightarrow> real \<Rightarrow> int"

subsection \<open>Serial dates\<close>

text \<open>
  A \<open>datetime\<close> is counted in microseconds from 1899-12-30 00:00:00 on its own clock: a
  naive one is that reading alone, an aware one comes with the offset of its time zone
  from UTC, so that its UTC time is the reading less the offset. Python's datetimes span
  the years 1 to 9999.
\<close>

datatype datetime = Naive int | Aware int int

definition us_per_day :: int where
  "us_per_day = 86400000000"



definition utcnow :: "env \<Rightarrow> datetime" where
  "utcnow en = Naive (clock en)"  \<comment> \<open>\<open>datetime.utcnow()\<close> has no tzinfo\<close>

record timedelta =
  days :: int
  seconds :: int
  microseconds :: int

text \<open>
  \<open>dt - origin\<close> with the aware origin \<open>datetime(1899, 12, 30, tzinfo=tz.tzutc())\<close>: Python
  raises TypeError when \<open>dt\<close> is naive, and otherwise gives the normalised difference of
  the UTC times (\<open>0 \<le> seconds < 86400\<close>, \<open>0 \<le> microseconds < 1000000\<close>).
\<close>

definition sub_origin :: "datetime \<Rightarrow> error + timedelta" where
  "sub_origin dt =
     (case dt of
        Naive wall \<Rightarrow> Inl TypeError
      | Aware wall off \<Rightarrow>
          (let us = wall - off
           in Inr \<lparr> days = us div us_per_day,
                    seconds = us mod us_per_day div 1000000,
                    microseconds = us mod 1000000 \<rparr>))"

definition to_serial_date :: "datetime \<Rightarrow> error + real" where
  "to_serial_date dt =
     (case sub_origin dt of
        Inl e \<Rightarrow> Inl e
      | Inr delta \<Rightarrow>
          Inr (fl (real_of_int (days delta) + fl (real_of_int (seconds delta) / 86400))))"




text \<open>
  A signal with two navigation and two signal dimensions (the plugin declares
  \<open>writes = [(2, 2)]\<close>): the data cube of shape \<open>[NY, NX, H, W]\<close> in C order, the scales of
  the axes the code reads, and the \<open>blockfile_header\<close> entry of its original metadata,
  with its Note, when it has one.
\<close>

record signal =
  shape_NY :: nat
  shape_NX :: nat
  shape_H :: nat
  shape_W :: nat
  data :: "u8 list"
  navigation_scale_0 :: f8
  navigation_scale_1 :: f8
  signal_scale_0 :: f8
  blockfile_header :: "(header \<times> u8 list) option"

definition navigation_shape :: "signal \<Rightarrow> nat \<times> nat" where
  "navigation_shape s = (shape_NX s, shape_NY s)"

definition signal_shape :: "signal \<Rightarrow> nat \<times> nat" where
  "signal_shape s = (shape_W s, shape_H s)"

text \<open>
  Modelled from the spec: \<open>_iterate_signal\<close> is not among the sources; it yields the
  frames of the cube in row-major scan order, each \<open>H * W\<close> bytes.
\<close>

definition iterate_signal :: "signal \<Rightarrow> u8 list list" where
  "iterate_signal s =
     map (\<lambda>k. take (shape_H s * shape_W s) (drop (k * (shape_H s * shape_W s)) (data s)))
       [0..<shape_NY s * shape_NX s]"

subsection \<open>Headers for writing\<close>

definition zero_header :: header where
  "zero_header =
     \<lparr> ID = [], MAGIC = 0, Data_offset_1 = 0, Data_offset_2 = 0, UNKNOWN1 = 0, DP_SZ = 0,
       DP_rotation = 0, NX = 0, NY = 0, Scan_rotation = 0, SX = 0, SY = 0, Beam_energy = 0,
       SDP = 0, Camera_length = 0, Aquisiton_time = 0,
       Centering_N = replicate 8 0, Distortion_N = replicate 14 0 \<rparr>"

definition ascii :: "string \<Rightarrow> u8 list" where
  "ascii cs = map (\<lambda>c. of_nat (of_char c)) cs"

text \<open>The dtype is built by \<open>get_header_dtype_list()\<close>: the argument \<open>endianess\<close> is not used.\<close>

definition get_default_header :: "env \<Rightarrow> endianess \<Rightarrow> error + sarray" where
  "get_default_header en end =
     (case to_serial_date (utcnow en) of
        Inl e \<Rightarrow> Inl e
      | Inr t \<Rightarrow>
          Inr (LE, zero_header
                 \<lparr> ID := ascii ''IMGBLO'', MAGIC := 0x0102, Data_offset_1 := 0x1000,
                   UNKNOWN1 := 131141, Aquisiton_time := float_bits en t \<rparr>))"

text \<open>
  Modelled from the spec: \<open>dict2sarray\<close> of hyperspy.misc.array_tools is not among the
  sources; the stored raw header is the record to write. It is a fresh zeroed record
  of the dtype that takes the entries of the dictionary: a field without an entry stays
  zero, a tag is cut to six bytes.
\<close>

definition dict2sarray_new :: "endianess \<Rightarrow> header \<Rightarrow> sarray" where
  "dict2sarray_new end d =
     (end, d \<lparr> ID := rstrip_nul (take 6 (ID d)),
               Centering_N := take 8 (Centering_N d @ replicate 8 0),
               Distortion_N := take 14 (Distortion_N d @ replicate 14 0) \<rparr>)"

definition is_zero :: "f8 \<Rightarrow> bool" where
  "is_zero x \<longleftrightarrow> x = 0 \<or> x = 0x8000000000000000"  \<comment> \<open>the floats 0.0 and -0.0\<close>

definition get_header_from_signal :: "env \<Rightarrow> signal \<Rightarrow> endianess \<Rightarrow> error + (sarray \<times> u8 list)" where
  "get_header_from_signal en s end =
     (case (case blockfile_header s of
              Some (d, note) \<Rightarrow> Inr (dict2sarray_new end d, note)
            | None \<Rightarrow> (case get_default_header en end of
                         Inl e \<Rightarrow> Inl e
                       | Inr h \<Rightarrow> Inr (h, []))) of
        Inl e \<Rightarrow> Inl e
      | Inr (hdr, note) \<Rightarrow>
          (let (nx, ny) = navigation_shape s;
               sx = navigation_scale_0 s;
               sy = navigation_scale_0 s;
               dp_sz = signal_shape s
           in if fst dp_sz \<noteq> snd dp_sz then Inl NonSquareFrame
              else if is_zero (signal_scale_0 s) then Inl ZeroDivisionError
              else
                (let sdp = sdp_cast en (signal_scale_0 s);
                     offset2 = nx * ny + unat (Data_offset_1 (snd hdr));
                     offset2 = offset2 + offset2 mod 16
                 in Inr ((fst hdr, (snd hdr)
                            \<lparr> NX := of_nat nx, NY := of_nat ny, DP_SZ := of_nat (fst dp_sz),
                              SX := sx, SY := sy, SDP := sdp,
                              Data_offset_2 := of_nat offset2 \<rparr>), note))))"

subsection \<open>The writer\<close>

text \<open>\<open>xs[:j]\<close>: a negative \<open>j\<close> counts from the end.\<close>

definition slice_to :: "'a list \<Rightarrow> int \<Rightarrow> 'a list" where
  "slice_to xs j = (if j < 0 then take (nat (int (length xs) + j)) xs else take (nat j) xs)"

definition dp_head :: "endianess \<Rightarrow> u32 \<Rightarrow> u8 list" where
  "dp_head end ident = pack end 2 0x55AA @ pack end 4 (unat ident)"

text \<open>
  The loop over the frames: the marker, the frame, then the serial is incremented and
  compared with \<open>header['NX'] * header['NY']\<close>, a product of two \<open>u2\<close> values.
\<close>

fun write_frames ::
  "endianess \<Rightarrow> u16 \<Rightarrow> u32 \<Rightarrow> u8 list list \<Rightarrow> u8 list \<Rightarrow> (error + unit) \<times> u8 list" where
  "write_frames end bound ident [] f = (Inr (), f)"
| "write_frames end bound ident (img # imgs) f =
     (let f = f @ dp_head end ident @ img;
          ident = ident + 1
      in if ident > ucast bound then (Inl FrameCountExceeded, f)
         else write_frames end bound ident imgs f)"

text \<open>
  \<open>file_writer\<close> on a destination: \<open>None\<close> when there is no file of that name yet. The
  result is the exception or \<open>()\<close>, and the destination afterwards.
\<close>

definition file_writer ::
  "env \<Rightarrow> signal \<Rightarrow> endianess \<Rightarrow> u8 list option \<Rightarrow> (error + unit) \<times> u8 list option" where
  "file_writer en s end dest =
     (case get_header_from_signal en s end of
        Inl e \<Rightarrow> (Inl e, dest)
      | Inr (hdr, note) \<Rightarrow>
          (let f = tofile hdr;
               off1 = int (unat (Data_offset_1 (snd hdr)));
               note = (if int (length note) > off1 - int (length f)
                       then slice_to note (off1 - int (length f) - int (length note))
                       else note);
               f = f @ note;
               zero_pad = off1 - int (length f)
           in if zero_pad < 0 then (Inl NegativeDimensions, Some f)
              else
                (let f = f @ replicate (nat zero_pad) 0;
                     vbf = map (vbf_mean en) (iterate_signal s);
                     f = f @ vbf;
                     zero_pad = int (unat (Data_offset_2 (snd hdr))) - int (length f)
                 in if zero_pad < 0 then (Inl NegativeDimensions, Some f)
                    else
                      (let f = f @ replicate (nat zero_pad) 0;
                           (r, f) = write_frames end (NX (snd hdr) * NY (snd hdr)) 0
                                      (iterate_signal s) f
                       in (r, Some f)))))"

subsection \<open>The reader\<close>

text \<open>
  A scale of an axis: a float of the header, the float \<open>100. / n\<close> for the non-zero
  \<open>u2\<close> value \<open>n\<close> of SDP, or the marker \<open>Undefined\<close> of traits.
\<close>

datatype scale_value = Header_float f8 | Hundred_over u16 | Undefined

record axis =
  size_px :: nat          \<comment> \<open>the entry \<open>size\<close>\<close>
  index_in_array :: nat
  name :: string
  scale :: scale_value
  offset :: real
  units :: string

record reading =
  data_shape :: "nat list"
  pixels :: "u8 list"    \<comment> \<open>the entry \<open>data\<close>, in C order\<close>
  axes :: "axis list"
  original_metadata :: "header \<times> u8 list"  \<comment> \<open>the header and its entry Note\<close>

text \<open>
  \<open>xs[j]\<close>: a negative \<open>j\<close> counts from the end. The reader indexes lists of four
  entries with \<open>-1\<close> to \<open>2\<close>, so that the IndexError of an index out of range cannot occur.
\<close>

definition py_nth :: "'a list \<Rightarrow> int \<Rightarrow> 'a" where
  "py_nth xs j = (if j < 0 then xs ! nat (int (length xs) + j) else xs ! nat j)"

text \<open>\<open>f.read(n)\<close> at position \<open>pos\<close>: everything left when \<open>n\<close> is negative.\<close>

definition read_at :: "u8 list \<Rightarrow> nat \<Rightarrow> int \<Rightarrow> u8 list" where
  "read_at bs pos n = (if n < 0 then drop pos bs else take (nat n) (drop pos bs))"

text \<open>
  \<open>file_reader\<close> on the bytes of a file. The width of a frame on disk is
  \<open>DP_SZ*DP_SZ + 6\<close>, where the product of the two \<open>u2\<close> scalars wraps at 16 bits and the
  sum is a Python integer. The memory map is the region of \<open>NY * NX\<close> such frames from
  \<open>Data_offset_2\<close>, which has to lie within the file.
\<close>

definition file_reader :: "u8 list \<Rightarrow> endianess \<Rightarrow> error + reading" where
  "file_reader bs end =
     (case fromfile end bs of
        Inl e \<Rightarrow> Inl e
      | Inr hdr \<Rightarrow>
          (let tell = header_size end;
               note = read_at bs tell (int (unat (Data_offset_1 hdr)) - int tell);
               nx = unat (NX hdr); ny = unat (NY hdr);
               dp_sz = unat (DP_SZ hdr);
               sdp = (if SDP hdr \<noteq> 0 then Hundred_over (SDP hdr) else Undefined);
               offset2 = unat (Data_offset_2 hdr);
               width = unat (DP_SZ hdr * DP_SZ hdr) + 6
           in if length bs < offset2 + ny * nx * width then Inl TruncatedFile
              else
                (let mapped = take (ny * nx * width) (drop offset2 bs);
                     stripped = concat (map (\<lambda>k. drop 6 (take width (drop (k * width) mapped)))
                                          [0..<ny * nx])
                 in if length stripped \<noteq> ny * nx * dp_sz * dp_sz then Inl ReshapeError
                    else
                      (let shape = [ny, nx, dp_sz, dp_sz];
                           units = [''nm'', ''cm'', ''cm'', ''nm''];
                           names = [''x'', ''dy'', ''dx'', ''y''];
                           scales = [Header_float (SX hdr), sdp, sdp, Header_float (SY hdr)];
                           dim = 4;
                           axes = map (\<lambda>i. \<lparr> size_px = shape ! i,
                                              index_in_array = i,
                                              name = py_nth names (int i + 3 - dim),
                                              scale = py_nth scales (int i + 3 - dim),
                                              offset = 0,
                                              units = py_nth units (int i + 3 - dim) \<rparr>)
                                      [0..<nat dim]
                       in Inr \<lparr> data_shape = shape, pixels = stripped, axes = axes,
                                original_metadata = (hdr, note) \<rparr>))))"

subsection \<open>Values that fit their dtype\<close>

fun fits :: "dtype \<Rightarrow> fval \<Rightarrow> bool" where
  "fits (Bytes n) (Str bs) \<longleftrightarrow> length bs \<le> n \<and> (bs = [] \<or> last bs \<noteq> 0)"
| "fits (UInt e n) (Num v) \<longleftrightarrow> v < 256 ^ n"
| "fits (Float e n) (Num v) \<longleftrightarrow> v < 256 ^ n"
| "fits d v \<longleftrightarrow> False"

subsection \<open>The stack of frames as it lies in the file\<close>

text \<open>Each frame behind its marker, the serials counting up from \<open>ident\<close>.\<close>

fun framed :: "endianess \<Rightarrow> u32 \<Rightarrow> u8 list list \<Rightarrow> u8 list list" where
  "framed end ident [] = []"
| "framed end ident (img # imgs) = (dp_head end ident @ img) # framed end (ident + 1) imgs"

subsection \<open>Concrete inputs\<close>

text \<open>
  An environment, a stored header (the values the format always shows) and signals over a
  given cube, for evaluating the code. The floats 1.0, 1.5 and 2.0 by their bits. The
  environment is one hour east of UTC, writes 100 into SDP (the scale 1.0 of the
  signals below), takes the mean of a frame of equal pixels and rounds half to even.
\<close>

definition f8_1_0 :: f8 where
  "f8_1_0 = 0x3FF0000000000000"

definition f8_1_5 :: f8 where
  "f8_1_5 = 0x3FF8000000000000"

definition f8_2_0 :: f8 where
  "f8_2_0 = 0x4000000000000000"

definition example_env :: env where
  "example_env =
     \<lparr> clock = 0,
       tzlocal = (\<lambda>utc. 3600000000),
       float_bits = (\<lambda>x. 0),
       sdp_cast = (\<lambda>x. 100),
       vbf_mean = (\<lambda>img. of_nat (sum_list (map unat img) div length img)),
       round_us = (\<lambda>x leftover. round_even (real_of_int x + leftover) - x) \<rparr>"

definition stored_header :: header where
  "stored_header =
     zero_header \<lparr> ID := ascii ''IMGBLO'', MAGIC := 0x0102, Data_offset_1 := 0x1000,
                   UNKNOWN1 := 131141 \<rparr>"

definition cube_signal ::
  "nat \<Rightarrow> nat \<Rightarrow> nat \<Rightarrow> nat \<Rightarrow> u8 list \<Rightarrow> (header \<times> u8 list) option \<Rightarrow> signal" where
  "cube_signal ny nx h w px prior =
     \<lparr> shape_NY = ny, shape_NX = nx, shape_H = h, shape_W = w, data = px,
       navigation_scale_0 = f8_1_0, navigation_scale_1 = f8_2_0, signal_scale_0 = f8_1_0,
       blockfile_header = prior \<rparr>"

text \<open>
  The header of the scenario \<open>NX = 2\<close>, \<open>NY = 2\<close>, \<open>DP_SZ = 4\<close>, \<open>SX = SY = 1.5\<close>, \<open>SDP = 100\<close>,
  with the frames right after the header record, and a header of one 1 x 1 frame whose tag
  and magic number are zero.
\<close>

definition scenario_header :: header where
  "scenario_header =
     zero_header \<lparr> Data_offset_1 := 240, Data_offset_2 := 240, DP_SZ := 4, NX := 2, NY := 2,
                   SX := f8_1_5, SY := f8_1_5, SDP := 100 \<rparr>"

definition untagged_header :: header where
  "untagged_header =
     zero_header \<lparr> Data_offset_1 := 240, Data_offset_2 := 240, DP_SZ := 1, NX := 1, NY := 1 \<rparr>"

text \<open>A stored header that leaves four bytes for the note.\<close>

definition short_gap_header :: header where
  "short_gap_header = stored_header \<lparr> Data_offset_1 := 244 \<rparr>"

subsection \<open>Facts about the byte codec\<close>

lemma length_le_bytes [simp]: "length (le_bytes n v) = n"
  by (induction n arbitrary: v) auto

lemma le_bytes_unfold:
  "0 < n \<Longrightarrow> le_bytes n v = of_nat (v mod 256) # le_bytes (n - 1) (v div 256)"
  by (cases n) simp_all

lemma le_value_le_bytes: "le_value (le_bytes n v) = v mod 256 ^ n"
proof (induction n arbitrary: v)
  case 0
  show ?case by simp
next
  case (Suc n)
  have "unat (of_nat (v mod 256) :: u8) = v mod 256"
    by (simp add: unat_of_nat)
  moreover have "v mod (256 * 256 ^ n) = 256 * (v div 256 mod 256 ^ n) + v mod 256"
    by (rule mod_mult2_eq)
  ultimately show ?case using Suc by simp
qed

lemma length_pack [simp]: "length (pack e n v) = n"
  by (cases e) (simp_all add: pack_def)

lemma unpack_pack: "v < 256 ^ n \<Longrightarrow> unpack e (pack e n v) = v"
  by (cases e) (simp_all add: pack_def unpack_def le_value_le_bytes)

lemma header_size_240 [simp]: "header_size e = 240"
  by (simp add: header_size_def get_header_dtype_list_def comp_def sum_list_triv)

lemma rstrip_nul_zeros [simp]: "rstrip_nul (replicate k 0) = []"
  by (induction k) simp_all

lemma rstrip_nul_append_zeros [simp]: "rstrip_nul (bs @ replicate k 0) = rstrip_nul bs"
  by (induction bs) (simp_all add: Let_def)

lemma rstrip_nul_id: "bs = [] \<or> last bs \<noteq> 0 \<Longrightarrow> rstrip_nul bs = bs"
  by (induction bs) (auto simp: Let_def split: if_splits)

lemma length_pack_field [simp]: "length (pack_field d v) = itemsize d"
  by (cases d) simp_all

lemma unpack_pack_field: "fits d v \<Longrightarrow> unpack_field d (pack_field d v) = v"
proof (cases d)
  case (Bytes n)
  assume "fits d v"
  with Bytes obtain bs where v: "v = Str bs" and len: "length bs \<le> n"
    and nz: "bs = [] \<or> last bs \<noteq> 0"
    by (cases v) auto
  have "take n (bs @ replicate n 0) = bs @ replicate (n - length bs) 0"
    using len by simp
  then show ?thesis using Bytes v nz by (simp add: rstrip_nul_id)
next
  case (UInt e n)
  assume "fits d v"
  with UInt show ?thesis by (cases v) (simp_all add: unpack_pack)
next
  case (Float e n)
  assume "fits d v"
  with Float show ?thesis by (cases v) (simp_all add: unpack_pack)
qed

lemma unpack_pack_fields:
  "list_all2 fits ds vs \<Longrightarrow> unpack_fields ds (pack_fields ds vs @ rest) = vs"
  by (induction ds vs rule: list_all2_induct) (simp_all add: unpack_pack_field)

lemma length_pack_fields:
  "length ds = length vs \<Longrightarrow> length (pack_fields ds vs) = sum_list (map itemsize ds)"
  by (induction ds vs rule: list_induct2) simp_all

lemma unat_u16_less [simp]: "unat (w :: u16) < 65536"
  using unsigned_less [of w] by simp

lemma unat_u32_less [simp]: "unat (w :: u32) < 4294967296"
  using unsigned_less [of w] by simp

lemma unat_f8_less [simp]: "unat (w :: f8) < 18446744073709551616"
  using unsigned_less [of w] by simp

lemma fits_floats:
  "list_all2 fits (map (\<lambda>i. Float e 8) [0..<length cs]) (map (\<lambda>c. Num (unat (c :: f8))) cs)"
  by (simp add: list_all2_conv_all_nth)

lemma fits_header:
  assumes "wf_header h"
  shows "list_all2 fits (map snd (get_header_dtype_list e)) (field_values h)"
proof -
  have c: "list_all2 fits (map (\<lambda>i. Float native 8) [0..<8]) (map (\<lambda>c. Num (unat c)) (Centering_N h))"
    using fits_floats [of native "Centering_N h"] assms by (simp add: wf_header_def)
  have d: "list_all2 fits (map (\<lambda>i. Float native 8) [0..<14]) (map (\<lambda>c. Num (unat c)) (Distortion_N h))"
    using fits_floats [of native "Distortion_N h"] assms by (simp add: wf_header_def)
  have i: "fits (Bytes 6) (Str (ID h))"
    using assms by (simp add: wf_header_def)
  show ?thesis
    unfolding get_header_dtype_list_def field_values_def
    using c d i by (simp add: comp_def list_all2_appendI)
qed

lemma of_fields_values: "wf_header h \<Longrightarrow> of_fields (field_values h) = h"
  by (simp add: of_fields_def field_values_def wf_header_def comp_def)

lemma length_tofile [simp]: "wf_header (snd a) \<Longrightarrow> length (tofile a) = 240"
proof -
  assume "wf_header (snd a)"
  then have "list_all2 fits (map snd (get_header_dtype_list (fst a))) (field_values (snd a))"
    by (rule fits_header)
  then have "length (map snd (get_header_dtype_list (fst a))) = length (field_values (snd a))"
    by (rule list_all2_lengthD)
  then have "length (tofile a) = sum_list (map itemsize (map snd (get_header_dtype_list (fst a))))"
    unfolding tofile_def by (rule length_pack_fields)
  also have "\<dots> = header_size (fst a)"
    unfolding header_size_def by simp
  finally show ?thesis by (simp only: header_size_240)
qed

lemma fromfile_tofile:
  assumes "wf_header h"
  shows "fromfile e (tofile (e, h) @ rest) = Inr h"
proof -
  have "length (tofile (e, h)) = 240"
    using assms by simp
  then have "\<not> length (tofile (e, h) @ rest) < header_size e"
    by simp
  moreover have "unpack_fields (map snd (get_header_dtype_list e)) (tofile (e, h) @ rest)
                 = field_values h"
    unfolding tofile_def using fits_header [OF assms] by (simp add: unpack_pack_fields)
  ultimately show ?thesis
    using assms by (simp add: fromfile_def of_fields_values)
qed

subsection \<open>Building the header\<close>

lemma wf_dict2sarray_new [simp]: "wf_header (snd (dict2sarray_new e d))"
proof -
  have "rstrip_nul bs = [] \<or> last (rstrip_nul bs) \<noteq> 0" for bs
    by (induction bs) (auto simp: Let_def)
  moreover have "length (rstrip_nul bs) \<le> length bs" for bs
    by (induction bs) (auto simp: Let_def)
  from this [of "take 6 (ID d)"] have "length (rstrip_nul (take 6 (ID d))) \<le> 6"
    by simp
  ultimately show ?thesis
    by (auto simp add: wf_header_def dict2sarray_new_def)
qed

lemma get_default_header_fails: "get_default_header en e = Inl TypeError"
  by (simp add: get_default_header_def to_serial_date_def sub_origin_def utcnow_def)

lemma get_header_from_signal_default:
  "blockfile_header s = None \<Longrightarrow> get_header_from_signal en s e = Inl TypeError"
  by (simp add: get_header_from_signal_def get_default_header_fails)

lemma get_header_from_signal_stored:
  assumes "blockfile_header s = Some (d, note)"
  shows "get_header_from_signal en s e =
     (if shape_W s \<noteq> shape_H s then Inl NonSquareFrame
      else if is_zero (signal_scale_0 s) then Inl ZeroDivisionError
      else Inr ((e, (snd (dict2sarray_new e d))
                  \<lparr> NX := of_nat (shape_NX s), NY := of_nat (shape_NY s),
                    DP_SZ := of_nat (shape_W s),
                    SX := navigation_scale_0 s, SY := navigation_scale_0 s,
                    SDP := sdp_cast en (signal_scale_0 s),
                    Data_offset_2 :=
                      of_nat (shape_NX s * shape_NY s + unat (Data_offset_1 d)
                        + (shape_NX s * shape_NY s + unat (Data_offset_1 d)) mod 16) \<rparr>), note))"
  using assms
  by (simp add: get_header_from_signal_def navigation_shape_def signal_shape_def Let_def
      dict2sarray_new_def)

lemma not_is_zero_1_0 [simp]: "\<not> is_zero f8_1_0"
  by (simp add: is_zero_def f8_1_0_def)

lemma file_writer_nonsquare_stored:
  "blockfile_header s = Some (d, note) \<Longrightarrow> shape_H s \<noteq> shape_W s \<Longrightarrow>
   file_writer en s e dest = (Inl NonSquareFrame, dest)"
  by (simp add: file_writer_def get_header_from_signal_stored)

lemma replicate_unfold: "0 < n \<Longrightarrow> replicate n x = x # replicate (n - 1) x"
  by (cases n) simp_all

subsection \<open>Reading\<close>

lemma wf_zero_header [simp]: "wf_header zero_header"
  by (simp add: wf_header_def zero_header_def)

lemma file_reader_axes:
  assumes "file_reader bs e = Inr r"
  shows "axes r =
     [ \<lparr> size_px = unat (NY (fst (original_metadata r))), index_in_array = 0, name = ''y'',
         scale = Header_float (SY (fst (original_metadata r))), offset = 0, units = ''nm'' \<rparr>,
       \<lparr> size_px = unat (NX (fst (original_metadata r))), index_in_array = 1, name = ''x'',
         scale = Header_float (SX (fst (original_metadata r))), offset = 0, units = ''nm'' \<rparr>,
       \<lparr> size_px = unat (DP_SZ (fst (original_metadata r))), index_in_array = 2, name = ''dy'',
         scale = (if SDP (fst (original_metadata r)) \<noteq> 0
                  then Hundred_over (SDP (fst (original_metadata r))) else Undefined),
         offset = 0, units = ''cm'' \<rparr>,
       \<lparr> size_px = unat (DP_SZ (fst (original_metadata r))), index_in_array = 3, name = ''dx'',
         scale = (if SDP (fst (original_metadata r)) \<noteq> 0
                  then Hundred_over (SDP (fst (original_metadata r))) else Undefined),
         offset = 0, units = ''cm'' \<rparr> ]"
proof -
  have upt4: "[0..<nat 4] = [0, 1, 2, 3]"
    by (simp add: upt_rec)
  show ?thesis
    using assms unfolding file_reader_def Let_def upt4
    by (auto simp add: py_nth_def split: sum.splits if_splits)
qed

lemma file_reader_malformed: "file_reader bs e = Inl MalformedHeader \<longleftrightarrow> length bs < 240"
  by (auto simp add: file_reader_def fromfile_def Let_def split: sum.splits if_splits)

lemma chunk_concat:
  "\<forall>x\<in>set xss. length x = m \<Longrightarrow> k < length xss \<Longrightarrow>
   take m (drop (k * m) (concat xss @ rest)) = xss ! k"
proof (induction xss arbitrary: k)
  case Nil
  then show ?case by simp
next
  case (Cons x xss)
  show ?case
  proof (cases k)
    case 0
    with Cons.prems show ?thesis by simp
  next
    case (Suc j)
    with Cons.prems have "take m (drop (j * m) (concat xss @ rest)) = xss ! j"
      by (intro Cons.IH) simp_all
    with Suc Cons.prems show ?thesis by simp
  qed
qed

lemma length_concat_chunks:
  "\<forall>x\<in>set xss. length x = m \<Longrightarrow> length (concat xss) = length xss * m"
  by (induction xss) simp_all

lemma strip_chunks:
  assumes "\<forall>x\<in>set xss. length x = m"
  shows "concat (map (\<lambda>k. drop 6 (take m (drop (k * m) (take (length xss * m) (concat xss @ rest)))))
                   [0..<length xss])
         = concat (map (drop 6) xss)"
proof -
  have "take (length xss * m) (concat xss @ rest) = concat xss"
    using length_concat_chunks [OF assms] by simp
  moreover have "take m (drop (k * m) (concat xss)) = xss ! k" if "k < length xss" for k
    using chunk_concat [OF assms that, of "[]"] by simp
  ultimately have "map (\<lambda>k. drop 6 (take m (drop (k * m) (take (length xss * m) (concat xss @ rest)))))
                     [0..<length xss]
                   = map (\<lambda>k. drop 6 (xss ! k)) [0..<length xss]"
    by simp
  also have "\<dots> = map (drop 6) (map (\<lambda>k. xss ! k) [0..<length xss])"
    by simp
  also have "\<dots> = map (drop 6) xss"
    by (simp only: map_nth)
  finally show ?thesis by simp
qed

lemma file_reader_layout:
  assumes wf: "wf_header h"
    and bs: "bs = tofile (e, h) @ mid @ concat xss @ rest"
    and off2: "240 + length mid = unat (Data_offset_2 h)"
    and n: "length xss = unat (NY h) * unat (NX h)"
    and len: "\<forall>x\<in>set xss. length x = unat (DP_SZ h) * unat (DP_SZ h) + 6"
    and sq: "unat (DP_SZ h * DP_SZ h) = unat (DP_SZ h) * unat (DP_SZ h)"
  shows "\<exists>r. file_reader bs e = Inr r \<and> pixels r = concat (map (drop 6) xss)
           \<and> data_shape r = [unat (NY h), unat (NX h), unat (DP_SZ h), unat (DP_SZ h)]
           \<and> fst (original_metadata r) = h"
proof -
  let ?w = "unat (DP_SZ h * DP_SZ h) + 6"
  let ?n = "unat (NY h) * unat (NX h)"
  have len': "\<forall>x\<in>set xss. length x = ?w"
    using len sq by simp
  have hdr: "fromfile e bs = Inr h"
    unfolding bs by (rule fromfile_tofile [OF wf])
  have dr: "drop (unat (Data_offset_2 h)) bs = concat xss @ rest"
    using off2 [symmetric] wf by (simp add: bs)
  have lc: "length (concat xss) = ?n * ?w"
    using length_concat_chunks [OF len'] n by simp
  have c1: "\<not> length bs < unat (Data_offset_2 h) + ?n * ?w"
    using off2 [symmetric] wf lc by (simp add: bs)
  have mapped: "take (?n * ?w) (drop (unat (Data_offset_2 h)) bs) = concat xss"
    using lc by (simp add: dr)
  have st: "concat (map (\<lambda>k. drop 6 (take ?w (drop (k * ?w) (concat xss)))) [0..<?n])
            = concat (map (drop 6) xss)"
    using strip_chunks [OF len', of "[]"] lc n by simp
  have "length (concat (map (drop 6) xss)) = length xss * (unat (DP_SZ h) * unat (DP_SZ h))"
    using len by (induction xss) simp_all
  then have c2: "length (concat (map (drop 6) xss)) = ?n * unat (DP_SZ h) * unat (DP_SZ h)"
    using n by (simp add: mult.assoc)
  show ?thesis
    unfolding file_reader_def hdr
    by (simp add: Let_def c1 mapped st c2)
qed

lemma scenario_read:
  "\<exists>r. file_reader (tofile (LE, scenario_header) @ concat (replicate 4 (replicate 22 0))) LE = Inr r
       \<and> fst (original_metadata r) = scenario_header"
proof -
  have "\<exists>r. file_reader (tofile (LE, scenario_header) @ concat (replicate 4 (replicate 22 0))) LE = Inr r
       \<and> pixels r = concat (map (drop 6) (replicate 4 (replicate 22 0)))
       \<and> data_shape r = [unat (NY scenario_header), unat (NX scenario_header),
            unat (DP_SZ scenario_header), unat (DP_SZ scenario_header)]
       \<and> fst (original_metadata r) = scenario_header"
    by (rule file_reader_layout [where mid = "[]" and rest = "[]"])
      (simp_all add: scenario_header_def wf_header_def zero_header_def)
  then show ?thesis by blast
qed

lemma untagged_read:
  "\<exists>r. file_reader (tofile (LE, untagged_header) @ [0xAA, 0x55, 0, 0, 0, 0, 7]) LE = Inr r
       \<and> pixels r = [7] \<and> fst (original_metadata r) = untagged_header"
proof -
  have "\<exists>r. file_reader (tofile (LE, untagged_header) @ [0xAA, 0x55, 0, 0, 0, 0, 7]) LE = Inr r
       \<and> pixels r = concat (map (drop 6) [[0xAA, 0x55, 0, 0, 0, 0, 7]])
       \<and> data_shape r = [unat (NY untagged_header), unat (NX untagged_header),
            unat (DP_SZ untagged_header), unat (DP_SZ untagged_header)]
       \<and> fst (original_metadata r) = untagged_header"
    by (rule file_reader_layout [where mid = "[]" and rest = "[]"])
      (simp_all add: untagged_header_def wf_header_def zero_header_def)
  then obtain r where "file_reader (tofile (LE, untagged_header) @ [0xAA, 0x55, 0, 0, 0, 0, 7]) LE = Inr r"
    and "pixels r = concat (map (drop 6) [[0xAA, 0x55, 0, 0, 0, 0, 7]])"
    and "fst (original_metadata r) = untagged_header"
    by blast
  then show ?thesis by simp
qed

subsection \<open>The loop over the frames\<close>

lemma length_dp_head [simp]: "length (dp_head e ident) = 6"
  by (simp add: dp_head_def)

lemma length_framed [simp]: "length (framed e ident imgs) = length imgs"
  by (induction imgs arbitrary: ident) simp_all


lemma drop_markers: "map (drop 6) (framed e ident imgs) = imgs"
  by (induction imgs arbitrary: ident) simp_all

lemma framed_lengths:
  "\<forall>img\<in>set imgs. length img = m \<Longrightarrow> \<forall>x\<in>set (framed e ident imgs). length x = m + 6"
  by (induction imgs arbitrary: ident) simp_all

lemma unat_ucast_u16 [simp]: "unat (ucast (bound :: u16) :: u32) = unat bound"
proof -
  have "unat bound < 2 ^ 32"
    by (rule less_trans [OF unat_u16_less]) simp
  then show ?thesis
    by (simp add: unsigned_ucast_eq take_bit_nat_eq_self)
qed

lemma unat_next_serial:
  "unat (ident :: u32) \<le> unat (bound :: u16) \<Longrightarrow> unat (ident + 1) = unat ident + 1"
proof -
  assume "unat ident \<le> unat bound"
  then have "unat ident + 1 < 4294967296"
    using unat_u16_less [of bound] by linarith
  then show ?thesis
    by (simp add: unat_word_ariths)
qed

lemma serial_exceeds:
  "unat (ident :: u32) \<le> unat (bound :: u16) \<Longrightarrow>
   ident + 1 > ucast bound \<longleftrightarrow> unat ident = unat bound"
  using unat_next_serial [of ident bound] by (auto simp add: word_less_nat_alt)

lemma write_frames_run:
  "unat ident \<le> unat bound \<Longrightarrow>
   write_frames e bound ident imgs f =
     (if unat ident + length imgs \<le> unat bound then Inr () else Inl FrameCountExceeded,
      f @ concat (framed e ident (take (unat bound - unat ident + 1) imgs)))"
proof (induction imgs arbitrary: ident f)
  case Nil
  then show ?case by simp
next
  case (Cons img imgs)
  show ?case
  proof (cases "unat ident = unat bound")
    case True
    with Cons.prems show ?thesis
      by (simp add: serial_exceeds Let_def)
  next
    case False
    with Cons.prems have lt: "unat ident < unat bound" by simp
    have s: "unat (ident + 1) = unat ident + 1"
      using lt by (simp add: unat_next_serial [of ident bound])
    then have le: "unat (ident + 1) \<le> unat bound"
      using lt by simp
    have t: "Suc (unat bound - Suc (unat ident)) = unat bound - unat ident"
      using lt by simp
    show ?thesis
      using Cons.prems False Cons.IH [OF le] s
      by (simp add: serial_exceeds Let_def t)
  qed
qed

subsection \<open>The layout of a written file\<close>

lemma get_header_from_signal_Inr:
  assumes "get_header_from_signal en s e = Inr (hdr, note)"
  obtains d where "blockfile_header s = Some (d, note)" and "shape_W s = shape_H s"
    and "\<not> is_zero (signal_scale_0 s)"
    and "hdr = (e, (snd (dict2sarray_new e d))
                  \<lparr> NX := of_nat (shape_NX s), NY := of_nat (shape_NY s),
                    DP_SZ := of_nat (shape_W s),
                    SX := navigation_scale_0 s, SY := navigation_scale_0 s,
                    SDP := sdp_cast en (signal_scale_0 s),
                    Data_offset_2 :=
                      of_nat (shape_NX s * shape_NY s + unat (Data_offset_1 d)
                        + (shape_NX s * shape_NY s + unat (Data_offset_1 d)) mod 16) \<rparr>)"
proof (cases "blockfile_header s")
  case None
  with assms show ?thesis
    by (simp add: get_header_from_signal_default)
next
  case (Some p)
  obtain d n where p: "p = (d, n)" by (cases p)
  with Some have st: "blockfile_header s = Some (d, n)" by simp
  from assms show ?thesis
    unfolding get_header_from_signal_stored [OF st]
    using that [of d] st by (simp split: if_splits)
qed

lemma header_facts:
  assumes "get_header_from_signal en s e = Inr (hdr, note)"
  shows "fst hdr = e" and "wf_header (snd hdr)"
    and "NX (snd hdr) = of_nat (shape_NX s)" and "NY (snd hdr) = of_nat (shape_NY s)"
    and "DP_SZ (snd hdr) = of_nat (shape_W s)" and "shape_W s = shape_H s"
    and "Data_offset_2 (snd hdr) =
           of_nat (shape_NX s * shape_NY s + unat (Data_offset_1 (snd hdr))
             + (shape_NX s * shape_NY s + unat (Data_offset_1 (snd hdr))) mod 16)"
    and "SX (snd hdr) = navigation_scale_0 s" and "SY (snd hdr) = navigation_scale_0 s"
proof -
  obtain d where h: "hdr = (e, (snd (dict2sarray_new e d))
                  \<lparr> NX := of_nat (shape_NX s), NY := of_nat (shape_NY s),
                    DP_SZ := of_nat (shape_W s),
                    SX := navigation_scale_0 s, SY := navigation_scale_0 s,
                    SDP := sdp_cast en (signal_scale_0 s),
                    Data_offset_2 :=
                      of_nat (shape_NX s * shape_NY s + unat (Data_offset_1 d)
                        + (shape_NX s * shape_NY s + unat (Data_offset_1 d)) mod 16) \<rparr>)"
    and sq: "shape_W s = shape_H s"
    using assms by (rule get_header_from_signal_Inr)
  have w: "wf_header (snd (dict2sarray_new e d))" by simp
  show "fst hdr = e" by (simp add: h)
  show "wf_header (snd hdr)" using w by (simp add: h wf_header_def)
  show "NX (snd hdr) = of_nat (shape_NX s)" by (simp add: h)
  show "NY (snd hdr) = of_nat (shape_NY s)" by (simp add: h)
  show "DP_SZ (snd hdr) = of_nat (shape_W s)" by (simp add: h)
  show "shape_W s = shape_H s" by (rule sq)
  show "Data_offset_2 (snd hdr) =
           of_nat (shape_NX s * shape_NY s + unat (Data_offset_1 (snd hdr))
             + (shape_NX s * shape_NY s + unat (Data_offset_1 (snd hdr))) mod 16)"
    by (simp add: h dict2sarray_new_def)
  show "SX (snd hdr) = navigation_scale_0 s" by (simp add: h)
  show "SY (snd hdr) = navigation_scale_0 s" by (simp add: h)
qed

lemma length_iterate_signal [simp]: "length (iterate_signal s) = shape_NY s * shape_NX s"
  by (simp add: iterate_signal_def)

lemma len_word32: "LENGTH(32) = 32"
  by simp

lemma note_cut_gen:
  "length f \<le> off1 \<Longrightarrow>
   (if int (length note) > int off1 - int (length f)
    then slice_to note (int off1 - int (length f) - int (length note)) else note)
   = take (off1 - length f) note"
  by (auto simp add: slice_to_def nat_diff_distrib)

lemma file_writer_layout:
  assumes gh: "get_header_from_signal en s e = Inr (hdr, note)"
    and off1: "240 \<le> unat (Data_offset_1 (snd hdr))"
    and sz: "sz = shape_NX s * shape_NY s + unat (Data_offset_1 (snd hdr))"
    and fit: "sz + sz mod 16 < 2 ^ 32"
    and B: "B = unat (NX (snd hdr) * NY (snd hdr))"
  shows "file_writer en s e dest =
     (if shape_NY s * shape_NX s \<le> B then Inr () else Inl FrameCountExceeded,
      Some (tofile hdr @ take (unat (Data_offset_1 (snd hdr)) - 240) note
            @ replicate (unat (Data_offset_1 (snd hdr)) - 240 - length note) 0
            @ map (vbf_mean en) (iterate_signal s)
            @ replicate (sz mod 16) 0
            @ concat (framed e 0 (take (B + 1) (iterate_signal s)))))"
proof -
  let ?o = "unat (Data_offset_1 (snd hdr))"
  have wf: "wf_header (snd hdr)"
    by (rule header_facts(2) [OF gh])
  have l0: "length (tofile hdr) = 240"
    using wf by simp
  have "Data_offset_2 (snd hdr) = of_nat (sz + sz mod 16)"
    unfolding sz by (rule header_facts(7) [OF gh])
  then have "unat (Data_offset_2 (snd hdr)) = (sz + sz mod 16) mod 2 ^ 32"
    by (simp only: unat_of_nat len_word32)
  then have o2: "unat (Data_offset_2 (snd hdr)) = sz + sz mod 16"
    using fit by simp
  have le: "length (tofile hdr) \<le> ?o"
    using off1 by (simp only: l0)
  have cut: "(if int (length note) > int ?o - int (length (tofile hdr))
        then slice_to note (int ?o - int (length (tofile hdr)) - int (length note)) else note)
       = take (?o - 240) note"
    using note_cut_gen [OF le, of "note"] by (simp only: l0)
  have "int ?o - int (240 + min (length note) (?o - 240)) = int (?o - 240 - length note)"
    using off1 by linarith
  then have pad1: "int ?o - int (length (tofile hdr @ take (?o - 240) note))
      = int (?o - 240 - length note)"
    by (simp only: length_append length_take l0)
  have w: "write_frames e (NX (snd hdr) * NY (snd hdr)) 0 (iterate_signal s) f =
      (if shape_NY s * shape_NX s \<le> B then Inr () else Inl FrameCountExceeded,
       f @ concat (framed e 0 (take (B + 1) (iterate_signal s))))" for f
    using write_frames_run [of 0 "NX (snd hdr) * NY (snd hdr)" e "iterate_signal s" f]
    by (simp add: B)
  have l3: "int (length (tofile hdr)) +
      (int (min (length note) (?o - 240)) +
        (int (?o - (240 + length note)) + int (shape_NY s) * int (shape_NX s))) = int sz"
    using off1 by (simp add: l0 sz mult.commute min_def)
  show ?thesis
    unfolding file_writer_def gh
    apply (simp only: sum.case prod.case Let_def cut pad1)
    apply (simp add: o2 w l3)
    done
qed

lemma wf_stored_header [simp]: "wf_header stored_header"
  by (simp add: wf_header_def stored_header_def zero_header_def ascii_def)


lemma wf_short_gap_header [simp]: "wf_header short_gap_header"
  using wf_stored_header by (simp add: short_gap_header_def wf_header_def)


subsection \<open>Writing a cube and reading it back\<close>

lemma concat_chunks:
  "concat (map (\<lambda>k. take m (drop (k * m) xs)) [0..<n]) = take (n * m) xs"
proof (induction n)
  case 0
  show ?case by simp
next
  case (Suc n)
  have "take (n * m) xs @ take m (drop (n * m) xs) = take (n * m + m) xs"
    by (simp add: take_add)
  with Suc show ?case by (simp add: add.commute)
qed

lemma concat_iterate_signal:
  "length (data s) = shape_NY s * shape_NX s * (shape_H s * shape_W s) \<Longrightarrow>
   concat (iterate_signal s) = data s"
  by (simp add: iterate_signal_def concat_chunks)

lemma length_frames:
  assumes "length (data s) = shape_NY s * shape_NX s * (shape_H s * shape_W s)"
  shows "\<forall>img\<in>set (iterate_signal s). length img = shape_H s * shape_W s"
proof -
  let ?m = "shape_H s * shape_W s"
  have "length (take ?m (drop (k * ?m) (data s))) = ?m" if "k < shape_NY s * shape_NX s" for k
  proof -
    from that have "Suc k \<le> shape_NY s * shape_NX s" by simp
    then have "Suc k * ?m \<le> shape_NY s * shape_NX s * ?m"
      by (rule mult_le_mono1)
    then show ?thesis using assms by simp
  qed
  then show ?thesis
    by (auto simp add: iterate_signal_def)
qed

lemma pixel_roundtrip_stored:
  assumes gh: "get_header_from_signal en s e = Inr (hdr, note)"
    and off1: "240 \<le> unat (Data_offset_1 (snd hdr))"
    and sz: "sz = shape_NX s * shape_NY s + unat (Data_offset_1 (snd hdr))"
    and fit: "sz + sz mod 16 < 2 ^ 32"
    and nx: "shape_NX s < 65536" and ny: "shape_NY s < 65536"
    and n: "shape_NY s * shape_NX s < 65536"
    and w: "shape_W s < 256"
    and len: "length (data s) = shape_NY s * shape_NX s * (shape_H s * shape_W s)"
  shows "\<exists>f r. file_writer en s e dest = (Inr (), Some f) \<and> file_reader f e = Inr r
           \<and> pixels r = data s
           \<and> data_shape r = [shape_NY s, shape_NX s, shape_H s, shape_W s]
           \<and> unat (DP_SZ (fst (original_metadata r))) = shape_W s"
proof -
  let ?o = "unat (Data_offset_1 (snd hdr))"
  let ?mid = "take (?o - 240) note @ replicate (?o - 240 - length note) 0
      @ map (vbf_mean en) (iterate_signal s) @ replicate (sz mod 16) 0"
  let ?f = "tofile hdr @ ?mid @ concat (framed e 0 (iterate_signal s)) @ []"
  have wf: "wf_header (snd hdr)"
    by (rule header_facts(2) [OF gh])
  have e: "hdr = (e, snd hdr)"
    using header_facts(1) [OF gh] by (cases hdr) simp
  have sq: "shape_W s = shape_H s"
    by (rule header_facts(6) [OF gh])
  have hx: "unat (NX (snd hdr)) = shape_NX s"
    using nx by (simp add: header_facts(3) [OF gh] unat_of_nat)
  have hy: "unat (NY (snd hdr)) = shape_NY s"
    using ny by (simp add: header_facts(4) [OF gh] unat_of_nat)
  have hd: "unat (DP_SZ (snd hdr)) = shape_W s"
    using w by (simp add: header_facts(5) [OF gh] unat_of_nat)
  have "shape_W s * shape_W s < 256 * 256"
    using w by (intro mult_strict_mono) simp_all
  then have hdd: "unat (DP_SZ (snd hdr) * DP_SZ (snd hdr)) = unat (DP_SZ (snd hdr)) * unat (DP_SZ (snd hdr))"
    by (simp add: unat_word_ariths hd)
  have "unat (NX (snd hdr) * NY (snd hdr)) = shape_NX s * shape_NY s"
    using n by (simp add: unat_word_ariths hx hy mult.commute)
  then have b: "shape_NY s * shape_NX s \<le> unat (NX (snd hdr) * NY (snd hdr))"
    by (simp add: mult.commute)
  have "Data_offset_2 (snd hdr) = of_nat (sz + sz mod 16)"
    unfolding sz by (rule header_facts(7) [OF gh])
  then have "unat (Data_offset_2 (snd hdr)) = (sz + sz mod 16) mod 2 ^ 32"
    by (simp only: unat_of_nat len_word32)
  then have o2: "unat (Data_offset_2 (snd hdr)) = sz + sz mod 16"
    using fit by simp
  have lm: "240 + length ?mid = unat (Data_offset_2 (snd hdr))"
    using off1 by (simp add: o2 sz mult.commute)
  have wr: "file_writer en s e dest = (Inr (), Some ?f)"
    using b by (simp add: file_writer_layout [OF gh off1 sz fit refl])
  have fl: "\<forall>x\<in>set (framed e 0 (iterate_signal s)).
      length x = unat (DP_SZ (snd hdr)) * unat (DP_SZ (snd hdr)) + 6"
    using framed_lengths [OF length_frames [OF len], of e 0] by (simp add: hd sq)
  have fn: "length (framed e 0 (iterate_signal s)) = unat (NY (snd hdr)) * unat (NX (snd hdr))"
    by (simp add: hx hy)
  obtain r where rd: "file_reader ?f e = Inr r"
    and px: "pixels r = concat (map (drop 6) (framed e 0 (iterate_signal s)))"
    and sh: "data_shape r = [unat (NY (snd hdr)), unat (NX (snd hdr)),
        unat (DP_SZ (snd hdr)), unat (DP_SZ (snd hdr))]"
    and om: "fst (original_metadata r) = snd hdr"
    using file_reader_layout [OF wf _ lm fn fl hdd, of ?f e "[]"] e by auto
  have "pixels r = data s"
    by (simp add: px drop_markers concat_iterate_signal [OF len])
  then show ?thesis
    using wr rd sh om by (simp add: hx hy hd sq)
qed

subsection \<open>The cube of shape 3, 2, 4, 4 with a stored header\<close>

lemma cube_3_2_4_4_roundtrip_stored:
  assumes len: "length px = 96"
    and off1: "240 \<le> unat (Data_offset_1 d)"
    and fit: "unat (Data_offset_1 d) + 22 < 2 ^ 32"
  shows "\<exists>f r. file_writer en (cube_signal 3 2 4 4 px (Some (d, note))) e dest = (Inr (), Some f)
           \<and> file_reader f e = Inr r \<and> pixels r = px \<and> data_shape r = [3, 2, 4, 4]
           \<and> DP_SZ (fst (original_metadata r)) = 4"
proof -
  let ?s = "cube_signal 3 2 4 4 px (Some (d, note))"
  obtain hdr where gh: "get_header_from_signal en ?s e = Inr (hdr, note)"
    and o: "Data_offset_1 (snd hdr) = Data_offset_1 d"
    by (simp add: get_header_from_signal_stored cube_signal_def dict2sarray_new_def)
  have "(6 + unat (Data_offset_1 d)) mod 16 < 16"
    by (rule mod_less_divisor) simp
  with fit have m: "6 + unat (Data_offset_1 d) + (6 + unat (Data_offset_1 d)) mod 16 < 2 ^ 32"
    by simp
  have sh: "shape_NX ?s = 2" "shape_NY ?s = 3" "shape_W ?s = 4" "shape_H ?s = 4" "data ?s = px"
    by (simp_all add: cube_signal_def)
  obtain f r where "file_writer en ?s e dest = (Inr (), Some f)" and "file_reader f e = Inr r"
    and "pixels r = data ?s"
    and "data_shape r = [shape_NY ?s, shape_NX ?s, shape_H ?s, shape_W ?s]"
    and dp: "unat (DP_SZ (fst (original_metadata r))) = shape_W ?s"
    using pixel_roundtrip_stored [OF gh _ refl, of dest] off1 m len
    unfolding o sh by auto
  moreover have "DP_SZ (fst (original_metadata r)) = 4"
  proof -
    have "of_nat (unat (DP_SZ (fst (original_metadata r)))) = (of_nat 4 :: u16)"
      using dp by (simp only: sh)
    then show ?thesis by simp
  qed
  ultimately show ?thesis
    unfolding sh by blast
qed

subsection \<open>Writes of a stored header\<close>

lemma stored_header_written:
  assumes "blockfile_header s = Some (d, note)" and "shape_W s = shape_H s"
    and "\<not> is_zero (signal_scale_0 s)"
  obtains hdr where "get_header_from_signal en s e = Inr (hdr, note)"
    and "Data_offset_1 (snd hdr) = Data_offset_1 d"
  using assms
  by (simp add: get_header_from_signal_stored dict2sarray_new_def)

lemma unat_offset_field:
  "unat (of_nat n :: u32) = n mod 2 ^ 32"
  by (simp only: unat_of_nat len_word32)






subsection \<open>Rounding to a double\<close>



lemma fl_zero [simp]: "fl 0 = 0"
  by (simp add: fl_def)




subsection \<open>The microseconds of a timedelta\<close>

lemma py_int_nonneg [simp]: "0 \<le> x \<Longrightarrow> py_int x = \<lfloor>x\<rfloor>"
  by (simp add: py_int_def)



subsection \<open>A serial date and back\<close>






section \<open>The claims\<close>

text \<open>
  C1 (fails on the code). A cube of shape \<open>[3, 2, 4, 4]\<close> is to come back unchanged from
  writing and reading. A signal without a stored header is written with the default
  header, and \<open>get_default_header\<close> raises TypeError: \<open>datetime.utcnow()\<close> is naive and
  \<open>_to_serial_date\<close> subtracts the aware origin from it. Nothing is written, whatever the
  pixels. (With a stored header the cube does come back: \<open>cube_3_2_4_4_roundtrip_stored\<close>.)
\<close>

theorem default_header_write_fails:
  "file_writer en (cube_signal 3 2 4 4 px None) e dest = (Inl TypeError, dest)"
  by (simp add: file_writer_def get_header_from_signal_default cube_signal_def)

text \<open>
  C2. For every write that gets as far as deriving a header (the signal carries a stored
  header, its frames are square and its reciprocal scale is not zero) the header's field
  Data_offset_2 is \<open>NX*NY + Data_offset_1 + ((NX*NY + Data_offset_1) mod 16)\<close>, the
  remainder added and not the sum rounded up, as the 32-bit field holds it; it is a
  multiple of 16 only when the remainder is 0 or 8.
\<close>

theorem data_offset_2_formula:
  assumes "blockfile_header s = Some (d, note)" and "shape_W s = shape_H s"
    and "\<not> is_zero (signal_scale_0 s)"
    and "sz = shape_NX s * shape_NY s + unat (Data_offset_1 d)"
  shows "\<exists>hdr. get_header_from_signal en s e = Inr (hdr, note)
           \<and> Data_offset_1 (snd hdr) = Data_offset_1 d
           \<and> Data_offset_2 (snd hdr) = of_nat (sz + sz mod 16)
           \<and> unat (Data_offset_2 (snd hdr)) = (sz + sz mod 16) mod 2 ^ 32
           \<and> (16 dvd unat (Data_offset_2 (snd hdr)) \<longleftrightarrow> sz mod 16 = 0 \<or> sz mod 16 = 8)"
proof -
  obtain hdr where gh: "get_header_from_signal en s e = Inr (hdr, note)"
    and o: "Data_offset_1 (snd hdr) = Data_offset_1 d"
    using assms(1-3) by (rule stored_header_written)
  have w: "Data_offset_2 (snd hdr) = of_nat (sz + sz mod 16)"
    unfolding assms(4) o [symmetric] by (rule header_facts(7) [OF gh])
  then have u: "unat (Data_offset_2 (snd hdr)) = (sz + sz mod 16) mod 2 ^ 32"
    by (simp only: unat_offset_field)
  have "(16 :: nat) dvd 2 ^ 32"
    by simp
  then have "16 dvd (sz + sz mod 16) mod 2 ^ 32 \<longleftrightarrow> 16 dvd sz + sz mod 16"
    by (rule dvd_mod_iff)
  moreover have "16 dvd sz + sz mod 16 \<longleftrightarrow> sz mod 16 = 0 \<or> sz mod 16 = 8"
    by presburger
  ultimately have m: "16 dvd unat (Data_offset_2 (snd hdr)) \<longleftrightarrow> sz mod 16 = 0 \<or> sz mod 16 = 8"
    by (simp only: u)
  show ?thesis
    by (rule exI [of _ hdr]) (intro conjI gh o w u m)
qed


theorem data_offset_2_formula_witness:
  "map_sum id (\<lambda>r. unat (Data_offset_2 (snd (fst r))))
     (get_header_from_signal example_env
        (cube_signal 3 2 4 4 (replicate 96 0) (Some (stored_header, []))) LE)
   = Inr 4108
   \<and> \<not> 16 dvd (4108 :: nat)
   \<and> map_sum id (\<lambda>r. unat (Data_offset_2 (snd (fst r))))
       (get_header_from_signal example_env
          (cube_signal 17 1 1 1 (replicate 17 0)
             (Some (stored_header \<lparr> Data_offset_1 := 0xFFFFFFF0 \<rparr>, []))) LE)
     = Inr 2"
proof -
  let ?s = "cube_signal 3 2 4 4 (replicate 96 0) (Some (stored_header, []))"
  let ?d = "stored_header \<lparr> Data_offset_1 := 0xFFFFFFF0 \<rparr>"
  let ?t = "cube_signal 17 1 1 1 (replicate 17 0) (Some (?d, []))"
  have "\<exists>hdr. get_header_from_signal example_env ?s LE = Inr (hdr, [])
      \<and> Data_offset_1 (snd hdr) = Data_offset_1 stored_header
      \<and> Data_offset_2 (snd hdr) = of_nat (4102 + 4102 mod 16)
      \<and> unat (Data_offset_2 (snd hdr)) = (4102 + 4102 mod 16) mod 2 ^ 32
      \<and> (16 dvd unat (Data_offset_2 (snd hdr)) \<longleftrightarrow> (4102 :: nat) mod 16 = 0 \<or> (4102 :: nat) mod 16 = 8)"
    by (rule data_offset_2_formula) (simp_all add: cube_signal_def stored_header_def)
  then obtain hdr where "get_header_from_signal example_env ?s LE = Inr (hdr, [])"
    and "unat (Data_offset_2 (snd hdr)) = (4102 + 4102 mod 16) mod 2 ^ 32"
    by (elim exE conjE)
  then have a: "map_sum id (\<lambda>r. unat (Data_offset_2 (snd (fst r))))
      (get_header_from_signal example_env ?s LE) = Inr 4108"
    by simp
  have "\<exists>hdr. get_header_from_signal example_env ?t LE = Inr (hdr, [])
      \<and> Data_offset_1 (snd hdr) = Data_offset_1 ?d
      \<and> Data_offset_2 (snd hdr) = of_nat (4294967297 + 4294967297 mod 16)
      \<and> unat (Data_offset_2 (snd hdr)) = (4294967297 + 4294967297 mod 16) mod 2 ^ 32
      \<and> (16 dvd unat (Data_offset_2 (snd hdr))
           \<longleftrightarrow> (4294967297 :: nat) mod 16 = 0 \<or> (4294967297 :: nat) mod 16 = 8)"
    by (rule data_offset_2_formula) (simp_all add: cube_signal_def)
  then obtain hdr' where "get_header_from_signal example_env ?t LE = Inr (hdr', [])"
    and "unat (Data_offset_2 (snd hdr')) = (4294967297 + 4294967297 mod 16) mod 2 ^ 32"
    by (elim exE conjE)
  then have "map_sum id (\<lambda>r. unat (Data_offset_2 (snd (fst r))))
      (get_header_from_signal example_env ?t LE) = Inr 2"
    by simp
  with a show ?thesis by simp
qed

text \<open>
  C3 (fails on the code). A cube with \<open>H \<noteq> W\<close> is to be refused with NonSquareFrame, the
  destination untouched. The header is built before the shape is looked at, and building
  the default header raises TypeError (\<open>datetime.utcnow()\<close> is naive, the origin aware):
  a non-square signal without a stored header fails with TypeError. The destination is
  unchanged.
\<close>

theorem nonsquare_default_header_TypeError:
  "file_writer example_env (cube_signal 1 1 1 2 [0, 0] None) LE (Some [1, 2, 3])
   = (Inl TypeError, Some [1, 2, 3])"
  by (simp add: file_writer_def get_header_from_signal_default cube_signal_def)




text \<open>
  C5 (fails on the code). Every multi-byte numeric field is to follow the selected byte
  order. The dtype list gives the Centering and Distortion fields the dtype \<open>'f8'\<close> without
  the prefix \<open>end\<close>, so they keep the native order: in a big-endian header the float 1.0 in
  Centering_N0 (offset 64) lies least significant byte first, while the same float in SX
  (offset 30) lies in the big-endian order \<open>3F F0 00 ...\<close>.
\<close>

theorem centering_native_in_big_endian_header:
  "take 8 (drop 64 (tofile (BE, zero_header \<lparr> Centering_N := f8_1_0 # replicate 7 0 \<rparr>)))
     = pack LE 8 (unat f8_1_0)
   \<and> take 8 (drop 30 (tofile (BE, zero_header \<lparr> SX := f8_1_0 \<rparr>))) = pack BE 8 (unat f8_1_0)
   \<and> pack LE 8 (unat f8_1_0) = [0, 0, 0, 0, 0, 0, 0xF0, 0x3F]
   \<and> pack BE 8 (unat f8_1_0) = [0x3F, 0xF0, 0, 0, 0, 0, 0, 0]"
  by (simp add: tofile_def get_header_dtype_list_def field_values_def zero_header_def
      f8_1_0_def pack_def le_bytes_unfold native_def comp_def map_replicate_const
      replicate_unfold [of 8])

text \<open>
  C6, as stated, fails: the descriptors are to come in the order x, dy, dx, y, with the
  scales 1.5, 1.0, 1.0, 1.5 in the scenario. The code indexes the lists of names, scales
  and units with \<open>i + 3 - dim\<close>, which is \<open>-1\<close> for the first axis: the order is y, x, dy, dx
  and the scales are 1.5, 1.5, 100/100, 100/100.
\<close>

theorem axes_order_counterexample:
  "map_sum id (\<lambda>r. (map name (axes r), map scale (axes r)))
     (file_reader (tofile (LE, scenario_header) @ concat (replicate 4 (replicate 22 0))) LE)
   = Inr ([''y'', ''x'', ''dy'', ''dx''],
          [Header_float f8_1_5, Header_float f8_1_5, Hundred_over 100, Hundred_over 100])
   \<and> [''y'', ''x'', ''dy'', ''dx''] \<noteq> [''x'', ''dy'', ''dx'', ''y'']
   \<and> [Header_float f8_1_5, Header_float f8_1_5, Hundred_over 100, Hundred_over 100]
       \<noteq> [Header_float f8_1_5, Hundred_over 100, Hundred_over 100, Header_float f8_1_5]"
proof -
  obtain r where r: "file_reader (tofile (LE, scenario_header)
      @ concat (replicate 4 (replicate 22 0))) LE = Inr r"
    and h: "fst (original_metadata r) = scenario_header"
    using scenario_read by blast
  show ?thesis
    by (simp add: r file_reader_axes [OF r] h) (simp add: scenario_header_def)
qed

text \<open>
  C6, amended: every successful read produces exactly four axis descriptors, in the order
  of the dimensions of the data, y (scan row), x (scan column), dy, dx, with the pixel
  counts, scales and units (NY, SY, nm), (NX, SX, nm), (DP_SZ, 100/SDP, cm),
  (DP_SZ, 100/SDP, cm), each with offset 0.0; the scale of dy and dx is the marker
  Undefined when SDP is zero.
\<close>

theorem axes_on_read:
  assumes "file_reader bs e = Inr r" and "hdr = fst (original_metadata r)"
    and "sdp = (if SDP hdr \<noteq> 0 then Hundred_over (SDP hdr) else Undefined)"
  shows "map (\<lambda>a. (name a, size_px a, scale a, units a, offset a)) (axes r) =
           [ (''y'', unat (NY hdr), Header_float (SY hdr), ''nm'', 0),
             (''x'', unat (NX hdr), Header_float (SX hdr), ''nm'', 0),
             (''dy'', unat (DP_SZ hdr), sdp, ''cm'', 0),
             (''dx'', unat (DP_SZ hdr), sdp, ''cm'', 0) ]
         \<and> map index_in_array (axes r) = [0, 1, 2, 3]"
  using assms(2,3) by (simp add: file_reader_axes [OF assms(1)])

theorem axes_on_read_witness:
  "map_sum id (\<lambda>r. map (\<lambda>a. (name a, size_px a, scale a, units a, offset a)) (axes r))
     (file_reader (tofile (LE, scenario_header) @ concat (replicate 4 (replicate 22 0))) LE)
   = Inr [ (''y'', 2, Header_float f8_1_5, ''nm'', 0),
           (''x'', 2, Header_float f8_1_5, ''nm'', 0),
           (''dy'', 4, Hundred_over 100, ''cm'', 0),
           (''dx'', 4, Hundred_over 100, ''cm'', 0) ]"
proof -
  obtain r where r: "file_reader (tofile (LE, scenario_header)
      @ concat (replicate 4 (replicate 22 0))) LE = Inr r"
    and h: "fst (original_metadata r) = scenario_header"
    using scenario_read by blast
  show ?thesis
    using axes_on_read [OF r refl refl]
    by (simp add: r h) (simp add: scenario_header_def)
qed

text \<open>
  C7, as stated, fails: a file whose tag is not IMGBLO or whose magic number is not 0x0102
  is to be refused. The reader decodes both fields and never looks at them: a file with
  a zero tag and a zero magic number is read, and its pixel comes back.
\<close>

theorem untagged_file_is_read:
  "map_sum id (\<lambda>r. (pixels r, ID (fst (original_metadata r)), MAGIC (fst (original_metadata r))))
     (file_reader (tofile (LE, untagged_header) @ [0xAA, 0x55, 0, 0, 0, 0, 7]) LE)
   = Inr ([7], [], 0)
   \<and> [] \<noteq> ascii ''IMGBLO'' \<and> (0 :: u16) \<noteq> 0x0102"
proof -
  obtain r where r: "file_reader (tofile (LE, untagged_header)
      @ [0xAA, 0x55, 0, 0, 0, 0, 7]) LE = Inr r"
    and p: "pixels r = [7]" and h: "fst (original_metadata r) = untagged_header"
    using untagged_read by blast
  show ?thesis
    by (simp add: r p h) (simp add: untagged_header_def zero_header_def ascii_def)
qed

text \<open>
  C7, amended: the reader fails with MalformedHeader exactly when the file holds fewer
  bytes than the header record, which is 240 bytes; the tag and the magic number do not
  matter.
\<close>

theorem malformed_header_iff_short:
  "(file_reader bs e = Inl MalformedHeader \<longleftrightarrow> length bs < header_size e) \<and> header_size e = 240"
  by (simp add: file_reader_malformed)




text \<open>
  C9 (fails on the code). The header is to carry the x scan step in SX and the y scan step
  in SY. The code reads \<open>navigation_axes[0].scale\<close> for both: a signal with the x step 1.0
  and the y step 2.0 gets SX = SY = 1.0.
\<close>

theorem SY_written_from_x_scale:
  "map_sum id (\<lambda>r. (SX (snd (fst r)), SY (snd (fst r))))
     (get_header_from_signal example_env
        (cube_signal 1 1 1 1 [0] (Some (stored_header, []))) LE)
   = Inr (f8_1_0, f8_1_0)
   \<and> navigation_scale_1 (cube_signal 1 1 1 1 [0] (Some (stored_header, []))) = f8_2_0
   \<and> f8_1_0 \<noteq> f8_2_0"
  by (simp add: get_header_from_signal_stored cube_signal_def f8_1_0_def f8_2_0_def is_zero_def)




end
